theory Spec2Isabelle
  imports Complex_Main "HOL-Library.Word"
begin

section \<open>Results of calls\<close>

text \<open>
  The element type \<open>T\<close> of the vector templates is a type variable \<open>'a\<close> carrying the
  arithmetic the source applies to it (\<open>+\<close>, \<open>-\<close>, \<open>*\<close>, \<open>/\<close> as \<open>div\<close> of class
  \<open>divide\<close>). For \<open>unsigned int\<close> it is \<open>32 word\<close>: the operations wrap around and
  the division is the unsigned one.

  A member function is a function of the receiver \<open>*this\<close> (and its arguments) that gives
  the returned value together with the receiver after the call. A function declared
  \<open>void\<close> gives \<open>No_Value\<close>.
  An argument passed by reference is an object of its own, distinct from the receiver.

  A call that does not come to a result is an \<open>error\<close>:
  \<^item> \<open>No_Matching_Operator\<close>: no declared operator takes the operands;
  \<^item> \<open>Index_Out_Of_Range\<close>: an array is indexed outside its bounds;
  \<^item> \<open>Division_By_Zero\<close>: an element is divided by a zero of the element type. The
    source does not intercept it: an integer element type traps, a floating one gives
    an infinity or a NaN, and neither is a value of the model;
  \<^item> \<open>Not_Finite\<close>: a \<open>double\<close> is divided by zero (an infinity or a NaN);
  \<^item> \<open>Ill_Formed\<close>: the member function violates a rule of the language, so that it
    cannot be instantiated and no call of it can be compiled.
\<close>

datatype 'v ret = No_Value | Returns 'v

datatype error =
  No_Matching_Operator | Index_Out_Of_Range | Division_By_Zero | Not_Finite | Ill_Formed

section \<open>Vec2\<close>

datatype 'a Vec2 = Vec2 (vec2_x: 'a) (vec2_y: 'a)

text \<open>The array member \<open>T v[2]\<close> of the union shares its storage with \<open>x\<close> and \<open>y\<close>.\<close>

definition vec2_v :: "'a Vec2 \<Rightarrow> 'a list" where
  "vec2_v this = [vec2_x this, vec2_y this]"

definition vec2_of_v :: "'a list \<Rightarrow> 'a Vec2" where
  "vec2_of_v v = Vec2 (v ! 0) (v ! 1)"

text \<open>\<open>Vec2()\<close> and \<open>explicit Vec2(T val)\<close>; \<open>Vec2(T x, T y)\<close> is the constructor \<open>Vec2\<close>.\<close>

definition Vec2_ctor0 :: "'a::zero Vec2" where
  "Vec2_ctor0 = Vec2 0 0"

definition Vec2_ctor1 :: "'a \<Rightarrow> 'a Vec2" where
  "Vec2_ctor1 val = Vec2 val val"

subsection \<open>Compound assignment, vector right-hand side\<close>

text \<open>\<open>operator+=(const Vec2<T> &rhs)\<close>: the body is \<open>x /= rhs.x; y /= rhs.y;\<close>.\<close>

definition vec2_add_assign_vec :: "'a::divide Vec2 \<Rightarrow> 'a Vec2 \<Rightarrow> 'a Vec2 ret \<times> 'a Vec2" where
  "vec2_add_assign_vec this rhs =
     (No_Value, Vec2 (vec2_x this div vec2_x rhs) (vec2_y this div vec2_y rhs))"



text \<open>\<open>operator*=(const Vec2<T> &rhs)\<close>: the body is \<open>x *= rhs.x; y *= rhs.x;\<close>.\<close>

definition vec2_mul_assign_vec :: "'a::times Vec2 \<Rightarrow> 'a Vec2 \<Rightarrow> 'a Vec2 ret \<times> 'a Vec2" where
  "vec2_mul_assign_vec this rhs =
     (No_Value, Vec2 (vec2_x this * vec2_x rhs) (vec2_y this * vec2_x rhs))"


subsection \<open>Compound assignment, scalar right-hand side\<close>




definition vec2_div_assign_scalar ::
  "'a::{zero,divide} Vec2 \<Rightarrow> 'a \<Rightarrow> error + ('a Vec2 ret \<times> 'a Vec2)" where
  "vec2_div_assign_scalar this rhs =
     (if rhs = 0 then Inl Division_By_Zero
      else Inr (No_Value, Vec2 (vec2_x this div rhs) (vec2_y this div rhs)))"

section \<open>The swizzle classes of Vec2\<close>

text \<open>
  A swizzle member of \<open>Vec2<T>\<close> has type \<open>_Swizzle<A, B>\<close>. It lies in the union of the
  vector, so its array \<open>T v[2]\<close> is the storage of the vector, and the cast
  \<open>*(Vec2<T> *) this\<close> is the vector itself. The index pair of a member comes from
  \<open>HM_VEC2_SWIZZLES\<close>; here it is a parameter of every operation.

  The primary template \<open>HM_SWIZZLE2_TEMPLATE_CLASS\<close> serves the pairs with \<open>A \<noteq> B\<close>,
  the partial specialisation \<open>HM_SWIZZLE2_TEMPLATE_CLASS_SPEC\<close> the pairs \<open>A = B\<close>.
\<close>

subsection \<open>Primary template\<close>

text \<open>\<open>operator=(const Vec2<T> &rhs)\<close>: \<open>v[A] = rhs.x; v[B] = rhs.y; return *(Vec2<T> *) this;\<close>\<close>

definition Swizzle_assign :: "nat \<Rightarrow> nat \<Rightarrow> 'a Vec2 \<Rightarrow> 'a Vec2 \<Rightarrow> 'a Vec2 \<times> 'a Vec2" where
  "Swizzle_assign A B this rhs =
     (let v1 = (vec2_v this)[A := vec2_x rhs];
          v2 = v1[B := vec2_y rhs];
          this' = vec2_of_v v2
      in (this', this'))"

text \<open>\<open>operator Vec2()\<close>: \<open>return Vec2<T>{v[A], v[B]};\<close>\<close>

definition Swizzle_to_Vec2 :: "nat \<Rightarrow> nat \<Rightarrow> 'a Vec2 \<Rightarrow> 'a Vec2 \<times> 'a Vec2" where
  "Swizzle_to_Vec2 A B this = (Vec2 (vec2_v this ! A) (vec2_v this ! B), this)"

text \<open>The compound assignments: \<open>v[A] op= rhs.x; v[B] op= rhs.y; return *(Vec2<T> *) this;\<close>\<close>

definition Swizzle_compound_vec ::
  "('a \<Rightarrow> 'a \<Rightarrow> 'a) \<Rightarrow> nat \<Rightarrow> nat \<Rightarrow> 'a Vec2 \<Rightarrow> 'a Vec2 \<Rightarrow> 'a Vec2 \<times> 'a Vec2" where
  "Swizzle_compound_vec f A B this rhs =
     (let v0 = vec2_v this;
          v1 = v0[A := f (v0 ! A) (vec2_x rhs)];
          v2 = v1[B := f (v1 ! B) (vec2_y rhs)];
          this' = vec2_of_v v2
      in (this', this'))"

definition Swizzle_add_assign_vec :: "nat \<Rightarrow> nat \<Rightarrow> 'a::plus Vec2 \<Rightarrow> 'a Vec2 \<Rightarrow> 'a Vec2 \<times> 'a Vec2" where
  "Swizzle_add_assign_vec = Swizzle_compound_vec (+)"

definition Swizzle_sub_assign_vec :: "nat \<Rightarrow> nat \<Rightarrow> 'a::minus Vec2 \<Rightarrow> 'a Vec2 \<Rightarrow> 'a Vec2 \<times> 'a Vec2" where
  "Swizzle_sub_assign_vec = Swizzle_compound_vec (-)"

definition Swizzle_mul_assign_vec :: "nat \<Rightarrow> nat \<Rightarrow> 'a::times Vec2 \<Rightarrow> 'a Vec2 \<Rightarrow> 'a Vec2 \<times> 'a Vec2" where
  "Swizzle_mul_assign_vec = Swizzle_compound_vec (*)"

text \<open>
  \<open>operator/=(const Vec2<T> &rhs)\<close>: \<open>v[A] /= rhs.x; v[B] /= rhs.y;\<close>, each division with
  its divisor checked.
\<close>

definition Swizzle_div_assign_vec ::
  "nat \<Rightarrow> nat \<Rightarrow> 'a::{zero,divide} Vec2 \<Rightarrow> 'a Vec2 \<Rightarrow> error + ('a Vec2 \<times> 'a Vec2)" where
  "Swizzle_div_assign_vec A B this rhs =
     (if vec2_x rhs = 0 then Inl Division_By_Zero
      else if vec2_y rhs = 0 then Inl Division_By_Zero
      else Inr (Swizzle_compound_vec (div) A B this rhs))"

text \<open>With a scalar: \<open>v[A] op= rhs; v[B] op= rhs; return *(Vec2<T> *) this;\<close>\<close>

definition Swizzle_compound_scalar ::
  "('a \<Rightarrow> 'a \<Rightarrow> 'a) \<Rightarrow> nat \<Rightarrow> nat \<Rightarrow> 'a Vec2 \<Rightarrow> 'a \<Rightarrow> 'a Vec2 \<times> 'a Vec2" where
  "Swizzle_compound_scalar f A B this rhs =
     (let v0 = vec2_v this;
          v1 = v0[A := f (v0 ! A) rhs];
          v2 = v1[B := f (v1 ! B) rhs];
          this' = vec2_of_v v2
      in (this', this'))"

definition Swizzle_add_assign_scalar :: "nat \<Rightarrow> nat \<Rightarrow> 'a::plus Vec2 \<Rightarrow> 'a \<Rightarrow> 'a Vec2 \<times> 'a Vec2" where
  "Swizzle_add_assign_scalar = Swizzle_compound_scalar (+)"

definition Swizzle_sub_assign_scalar :: "nat \<Rightarrow> nat \<Rightarrow> 'a::minus Vec2 \<Rightarrow> 'a \<Rightarrow> 'a Vec2 \<times> 'a Vec2" where
  "Swizzle_sub_assign_scalar = Swizzle_compound_scalar (-)"

definition Swizzle_mul_assign_scalar :: "nat \<Rightarrow> nat \<Rightarrow> 'a::times Vec2 \<Rightarrow> 'a \<Rightarrow> 'a Vec2 \<times> 'a Vec2" where
  "Swizzle_mul_assign_scalar = Swizzle_compound_scalar (*)"

text \<open>\<open>operator/=(T rhs)\<close>: \<open>v[A] /= rhs; v[B] /= rhs;\<close>, the divisor checked.\<close>

definition Swizzle_div_assign_scalar ::
  "nat \<Rightarrow> nat \<Rightarrow> 'a::{zero,divide} Vec2 \<Rightarrow> 'a \<Rightarrow> error + ('a Vec2 \<times> 'a Vec2)" where
  "Swizzle_div_assign_scalar A B this rhs =
     (if rhs = 0 then Inl Division_By_Zero
      else Inr (Swizzle_compound_scalar (div) A B this rhs))"

subsection \<open>Partial specialisation for equal indices\<close>

text \<open>
  \<open>operator Vec2()\<close>: \<open>return Vec2<T>{v[A]};\<close>, the one-argument constructor.
  The class declares this conversion, \<open>operator()\<close> and the eight binary operators
  \<open>+ - * /\<close>; it declares no \<open>operator=\<close> from a vector and no compound assignment.
\<close>

definition Swizzle_AA_to_Vec2 :: "nat \<Rightarrow> 'a Vec2 \<Rightarrow> 'a Vec2 \<times> 'a Vec2" where
  "Swizzle_AA_to_Vec2 A this = (Vec2_ctor1 (vec2_v this ! A), this)"

subsection \<open>Expressions on a swizzle member\<close>

text \<open>
  An expression on the member with index pair \<open>(A, B)\<close> of a vector picks the class by
  the pair, and the operator in that class. An index outside the array is undefined
  behaviour in the source and \<open>Index_Out_Of_Range\<close> here; an operator that the class
  does not declare is \<open>No_Matching_Operator\<close>.
\<close>

definition swizzle2_read :: "nat \<Rightarrow> nat \<Rightarrow> 'a Vec2 \<Rightarrow> error + ('a Vec2 \<times> 'a Vec2)" where
  "swizzle2_read A B this =
     (if A < 2 \<and> B < 2
      then (if A = B then Inr (Swizzle_AA_to_Vec2 A this) else Inr (Swizzle_to_Vec2 A B this))
      else Inl Index_Out_Of_Range)"

definition swizzle2_call ::
  "(nat \<Rightarrow> nat \<Rightarrow> 'a Vec2 \<Rightarrow> 'b \<Rightarrow> 'a Vec2 \<times> 'a Vec2) \<Rightarrow>
     nat \<Rightarrow> nat \<Rightarrow> 'a Vec2 \<Rightarrow> 'b \<Rightarrow> error + ('a Vec2 \<times> 'a Vec2)" where
  "swizzle2_call primary A B this rhs =
     (if A < 2 \<and> B < 2
      then (if A = B then Inl No_Matching_Operator else Inr (primary A B this rhs))
      else Inl Index_Out_Of_Range)"

text \<open>The same for an operator of the primary template that can itself end in an error.\<close>

definition swizzle2_call_checked ::
  "(nat \<Rightarrow> nat \<Rightarrow> 'a Vec2 \<Rightarrow> 'b \<Rightarrow> error + ('a Vec2 \<times> 'a Vec2)) \<Rightarrow>
     nat \<Rightarrow> nat \<Rightarrow> 'a Vec2 \<Rightarrow> 'b \<Rightarrow> error + ('a Vec2 \<times> 'a Vec2)" where
  "swizzle2_call_checked primary A B this rhs =
     (if A < 2 \<and> B < 2
      then (if A = B then Inl No_Matching_Operator else primary A B this rhs)
      else Inl Index_Out_Of_Range)"

definition swizzle2_assign :: "nat \<Rightarrow> nat \<Rightarrow> 'a Vec2 \<Rightarrow> 'a Vec2 \<Rightarrow> error + ('a Vec2 \<times> 'a Vec2)" where
  "swizzle2_assign = swizzle2_call Swizzle_assign"

definition swizzle2_add_assign_vec ::
  "nat \<Rightarrow> nat \<Rightarrow> 'a::plus Vec2 \<Rightarrow> 'a Vec2 \<Rightarrow> error + ('a Vec2 \<times> 'a Vec2)" where
  "swizzle2_add_assign_vec = swizzle2_call Swizzle_add_assign_vec"

definition swizzle2_sub_assign_vec ::
  "nat \<Rightarrow> nat \<Rightarrow> 'a::minus Vec2 \<Rightarrow> 'a Vec2 \<Rightarrow> error + ('a Vec2 \<times> 'a Vec2)" where
  "swizzle2_sub_assign_vec = swizzle2_call Swizzle_sub_assign_vec"

definition swizzle2_mul_assign_vec ::
  "nat \<Rightarrow> nat \<Rightarrow> 'a::times Vec2 \<Rightarrow> 'a Vec2 \<Rightarrow> error + ('a Vec2 \<times> 'a Vec2)" where
  "swizzle2_mul_assign_vec = swizzle2_call Swizzle_mul_assign_vec"

definition swizzle2_div_assign_vec ::
  "nat \<Rightarrow> nat \<Rightarrow> 'a::{zero,divide} Vec2 \<Rightarrow> 'a Vec2 \<Rightarrow> error + ('a Vec2 \<times> 'a Vec2)" where
  "swizzle2_div_assign_vec = swizzle2_call_checked Swizzle_div_assign_vec"

definition swizzle2_add_assign_scalar ::
  "nat \<Rightarrow> nat \<Rightarrow> 'a::plus Vec2 \<Rightarrow> 'a \<Rightarrow> error + ('a Vec2 \<times> 'a Vec2)" where
  "swizzle2_add_assign_scalar = swizzle2_call Swizzle_add_assign_scalar"

definition swizzle2_sub_assign_scalar ::
  "nat \<Rightarrow> nat \<Rightarrow> 'a::minus Vec2 \<Rightarrow> 'a \<Rightarrow> error + ('a Vec2 \<times> 'a Vec2)" where
  "swizzle2_sub_assign_scalar = swizzle2_call Swizzle_sub_assign_scalar"

definition swizzle2_mul_assign_scalar ::
  "nat \<Rightarrow> nat \<Rightarrow> 'a::times Vec2 \<Rightarrow> 'a \<Rightarrow> error + ('a Vec2 \<times> 'a Vec2)" where
  "swizzle2_mul_assign_scalar = swizzle2_call Swizzle_mul_assign_scalar"

definition swizzle2_div_assign_scalar ::
  "nat \<Rightarrow> nat \<Rightarrow> 'a::{zero,divide} Vec2 \<Rightarrow> 'a \<Rightarrow> error + ('a Vec2 \<times> 'a Vec2)" where
  "swizzle2_div_assign_scalar = swizzle2_call_checked Swizzle_div_assign_scalar"


section \<open>Vec3\<close>

datatype 'a Vec3 = Vec3 (vec3_x: 'a) (vec3_y: 'a) (vec3_z: 'a)

definition Vec3_ctor0 :: "'a::zero Vec3" where
  "Vec3_ctor0 = Vec3 0 0 0"

text \<open>\<open>operator*(const Vec3<T> &rhs) const\<close> and \<open>operator*(T rhs) const\<close>.\<close>

definition vec3_mul_vec :: "'a::times Vec3 \<Rightarrow> 'a Vec3 \<Rightarrow> 'a Vec3" where
  "vec3_mul_vec this rhs =
     Vec3 (vec3_x this * vec3_x rhs) (vec3_y this * vec3_y rhs) (vec3_z this * vec3_z rhs)"

definition vec3_mul_scalar :: "'a::times Vec3 \<Rightarrow> 'a \<Rightarrow> 'a Vec3" where
  "vec3_mul_scalar this rhs = Vec3 (vec3_x this * rhs) (vec3_y this * rhs) (vec3_z this * rhs)"

subsection \<open>Compound assignment\<close>

definition vec3_add_assign_vec :: "'a::plus Vec3 \<Rightarrow> 'a Vec3 \<Rightarrow> 'a Vec3 ret \<times> 'a Vec3" where
  "vec3_add_assign_vec this rhs =
     (No_Value, Vec3 (vec3_x this + vec3_x rhs) (vec3_y this + vec3_y rhs) (vec3_z this + vec3_z rhs))"

definition vec3_sub_assign_vec :: "'a::minus Vec3 \<Rightarrow> 'a Vec3 \<Rightarrow> 'a Vec3 ret \<times> 'a Vec3" where
  "vec3_sub_assign_vec this rhs =
     (No_Value, Vec3 (vec3_x this - vec3_x rhs) (vec3_y this - vec3_y rhs) (vec3_z this - vec3_z rhs))"

definition vec3_mul_assign_vec :: "'a::times Vec3 \<Rightarrow> 'a Vec3 \<Rightarrow> 'a Vec3 ret \<times> 'a Vec3" where
  "vec3_mul_assign_vec this rhs =
     (No_Value, Vec3 (vec3_x this * vec3_x rhs) (vec3_y this * vec3_y rhs) (vec3_z this * vec3_z rhs))"

definition vec3_div_assign_vec ::
  "'a::{zero,divide} Vec3 \<Rightarrow> 'a Vec3 \<Rightarrow> error + ('a Vec3 ret \<times> 'a Vec3)" where
  "vec3_div_assign_vec this rhs =
     (if vec3_x rhs = 0 then Inl Division_By_Zero
      else if vec3_y rhs = 0 then Inl Division_By_Zero
      else if vec3_z rhs = 0 then Inl Division_By_Zero
      else Inr (No_Value, Vec3 (vec3_x this div vec3_x rhs) (vec3_y this div vec3_y rhs)
                               (vec3_z this div vec3_z rhs)))"

definition vec3_add_assign_scalar :: "'a::plus Vec3 \<Rightarrow> 'a \<Rightarrow> 'a Vec3 ret \<times> 'a Vec3" where
  "vec3_add_assign_scalar this rhs =
     (No_Value, Vec3 (vec3_x this + rhs) (vec3_y this + rhs) (vec3_z this + rhs))"

definition vec3_sub_assign_scalar :: "'a::minus Vec3 \<Rightarrow> 'a \<Rightarrow> 'a Vec3 ret \<times> 'a Vec3" where
  "vec3_sub_assign_scalar this rhs =
     (No_Value, Vec3 (vec3_x this - rhs) (vec3_y this - rhs) (vec3_z this - rhs))"

definition vec3_mul_assign_scalar :: "'a::times Vec3 \<Rightarrow> 'a \<Rightarrow> 'a Vec3 ret \<times> 'a Vec3" where
  "vec3_mul_assign_scalar this rhs =
     (No_Value, Vec3 (vec3_x this * rhs) (vec3_y this * rhs) (vec3_z this * rhs))"

definition vec3_div_assign_scalar ::
  "'a::{zero,divide} Vec3 \<Rightarrow> 'a \<Rightarrow> error + ('a Vec3 ret \<times> 'a Vec3)" where
  "vec3_div_assign_scalar this rhs =
     (if rhs = 0 then Inl Division_By_Zero
      else Inr (No_Value, Vec3 (vec3_x this div rhs) (vec3_y this div rhs) (vec3_z this div rhs)))"

section \<open>Vec4\<close>

datatype 'a Vec4 = Vec4 (vec4_x: 'a) (vec4_y: 'a) (vec4_z: 'a) (vec4_w: 'a)

definition Vec4_ctor0 :: "'a::zero Vec4" where
  "Vec4_ctor0 = Vec4 0 0 0 0"

subsection \<open>Compound assignment\<close>

definition vec4_add_assign_vec :: "'a::plus Vec4 \<Rightarrow> 'a Vec4 \<Rightarrow> 'a Vec4 ret \<times> 'a Vec4" where
  "vec4_add_assign_vec this rhs =
     (No_Value, Vec4 (vec4_x this + vec4_x rhs) (vec4_y this + vec4_y rhs)
                     (vec4_z this + vec4_z rhs) (vec4_w this + vec4_w rhs))"

definition vec4_sub_assign_vec :: "'a::minus Vec4 \<Rightarrow> 'a Vec4 \<Rightarrow> 'a Vec4 ret \<times> 'a Vec4" where
  "vec4_sub_assign_vec this rhs =
     (No_Value, Vec4 (vec4_x this - vec4_x rhs) (vec4_y this - vec4_y rhs)
                     (vec4_z this - vec4_z rhs) (vec4_w this - vec4_w rhs))"

definition vec4_mul_assign_vec :: "'a::times Vec4 \<Rightarrow> 'a Vec4 \<Rightarrow> 'a Vec4 ret \<times> 'a Vec4" where
  "vec4_mul_assign_vec this rhs =
     (No_Value, Vec4 (vec4_x this * vec4_x rhs) (vec4_y this * vec4_y rhs)
                     (vec4_z this * vec4_z rhs) (vec4_w this * vec4_w rhs))"

definition vec4_div_assign_vec ::
  "'a::{zero,divide} Vec4 \<Rightarrow> 'a Vec4 \<Rightarrow> error + ('a Vec4 ret \<times> 'a Vec4)" where
  "vec4_div_assign_vec this rhs =
     (if vec4_x rhs = 0 then Inl Division_By_Zero
      else if vec4_y rhs = 0 then Inl Division_By_Zero
      else if vec4_z rhs = 0 then Inl Division_By_Zero
      else if vec4_w rhs = 0 then Inl Division_By_Zero
      else Inr (No_Value, Vec4 (vec4_x this div vec4_x rhs) (vec4_y this div vec4_y rhs)
                               (vec4_z this div vec4_z rhs) (vec4_w this div vec4_w rhs)))"

definition vec4_add_assign_scalar :: "'a::plus Vec4 \<Rightarrow> 'a \<Rightarrow> 'a Vec4 ret \<times> 'a Vec4" where
  "vec4_add_assign_scalar this rhs =
     (No_Value, Vec4 (vec4_x this + rhs) (vec4_y this + rhs) (vec4_z this + rhs) (vec4_w this + rhs))"

definition vec4_sub_assign_scalar :: "'a::minus Vec4 \<Rightarrow> 'a \<Rightarrow> 'a Vec4 ret \<times> 'a Vec4" where
  "vec4_sub_assign_scalar this rhs =
     (No_Value, Vec4 (vec4_x this - rhs) (vec4_y this - rhs) (vec4_z this - rhs) (vec4_w this - rhs))"

definition vec4_mul_assign_scalar :: "'a::times Vec4 \<Rightarrow> 'a \<Rightarrow> 'a Vec4 ret \<times> 'a Vec4" where
  "vec4_mul_assign_scalar this rhs =
     (No_Value, Vec4 (vec4_x this * rhs) (vec4_y this * rhs) (vec4_z this * rhs) (vec4_w this * rhs))"

definition vec4_div_assign_scalar ::
  "'a::{zero,divide} Vec4 \<Rightarrow> 'a \<Rightarrow> error + ('a Vec4 ret \<times> 'a Vec4)" where
  "vec4_div_assign_scalar this rhs =
     (if rhs = 0 then Inl Division_By_Zero
      else Inr (No_Value, Vec4 (vec4_x this div rhs) (vec4_y this div rhs)
                               (vec4_z this div rhs) (vec4_w this div rhs)))"

section \<open>Length and normalisation\<close>

text \<open>
  These member functions are modelled at the element type \<open>unsigned int\<close>, of 32 bits:
  the sum of squares is computed in \<open>unsigned int\<close>, where it wraps around and no
  integral promotion takes place, and is converted to \<open>double\<close> without loss for
  \<open>std::sqrt\<close>. A \<open>double\<close> is taken as the real number it denotes, so the rounding of
  \<open>std::sqrt\<close> and of the division is left out; the square root is zero exactly when
  the sum is, and the test \<open>!len\<close> is \<open>len = 0\<close>. The conversion of a \<open>double\<close> to
  \<open>unsigned int\<close> truncates; it is applied to values from 0 to below \<open>2 ^ 32\<close> only
  (a length, or an element divided by a length of at least 1).
\<close>

type_synonym uint = "32 word"

definition uint_to_double :: "uint \<Rightarrow> real" where
  "uint_to_double w = real (unat w)"

definition double_to_uint :: "real \<Rightarrow> uint" where
  "double_to_uint d = of_nat (nat \<lfloor>d\<rfloor>)"

definition double_div :: "real \<Rightarrow> real \<Rightarrow> error + real" where
  "double_div n d = (if d = 0 then Inl Not_Finite else Inr (n / d))"

subsection \<open>Const member functions\<close>

text \<open>
  Inside a member function declared \<open>const\<close> the receiver is a \<open>const\<close> object, and
  a call of a member function on it is well-formed only if that function is declared
  \<open>const\<close> too. The qualifiers below are those of the declarations: \<open>Vec2\<close> declares
  \<open>inline double length()\<close>, \<open>Vec3\<close> and \<open>Vec4\<close> declare \<open>inline double length() const\<close>,
  and \<open>Vec4\<close> declares \<open>inline void operator/=(T rhs)\<close>.
\<close>

datatype qualifier = Const_Member | Non_Const_Member

definition callable_on_const :: "qualifier \<Rightarrow> bool" where
  "callable_on_const q = (q = Const_Member)"

definition vec2_length_qualifier :: qualifier where
  "vec2_length_qualifier = Non_Const_Member"

definition vec3_length_qualifier :: qualifier where
  "vec3_length_qualifier = Const_Member"

definition vec4_length_qualifier :: qualifier where
  "vec4_length_qualifier = Const_Member"

definition vec4_div_assign_scalar_qualifier :: qualifier where
  "vec4_div_assign_scalar_qualifier = Non_Const_Member"

subsection \<open>Vec2\<close>

text \<open>\<open>length()\<close>: \<open>return std::sqrt(x * x + y * y);\<close>\<close>

definition vec2_length :: "uint Vec2 \<Rightarrow> real" where
  "vec2_length this = sqrt (uint_to_double (vec2_x this * vec2_x this + vec2_y this * vec2_y this))"

text \<open>
  \<open>normalize()\<close>: \<open>double len = length(); if(!len) { return; } *this /= len;\<close>, where
  \<open>/=\<close> is \<open>operator/=(T)\<close> with the length converted to \<open>T\<close>.
\<close>

definition vec2_normalize :: "uint Vec2 \<Rightarrow> error + (uint Vec2 ret \<times> uint Vec2)" where
  "vec2_normalize this =
     (let len = vec2_length this
      in if len = 0 then Inr (No_Value, this)
         else vec2_div_assign_scalar this (double_to_uint len))"

text \<open>
  \<open>normalized() const\<close>: \<open>double len = length(); if(!len) { return Vec2<T>{}; }
  return Vec2<T>{static_cast<T>(x / len), static_cast<T>(y / len)};\<close>.
  The call of \<open>length()\<close> is made on the \<open>const\<close> receiver.
\<close>

definition vec2_normalized :: "uint Vec2 \<Rightarrow> error + (uint Vec2 ret \<times> uint Vec2)" where
  "vec2_normalized this =
     (if callable_on_const vec2_length_qualifier
      then (let len = vec2_length this
            in if len = 0 then Inr (Returns Vec2_ctor0, this)
               else (case double_div (uint_to_double (vec2_x this)) len of
                       Inl e \<Rightarrow> Inl e
                     | Inr qx \<Rightarrow>
                        (case double_div (uint_to_double (vec2_y this)) len of
                           Inl e \<Rightarrow> Inl e
                         | Inr qy \<Rightarrow>
                             Inr (Returns (Vec2 (double_to_uint qx) (double_to_uint qy)), this))))
      else Inl Ill_Formed)"

subsection \<open>Vec3\<close>

definition vec3_length :: "uint Vec3 \<Rightarrow> real" where
  "vec3_length this =
     sqrt (uint_to_double (vec3_x this * vec3_x this + vec3_y this * vec3_y this
                           + vec3_z this * vec3_z this))"

definition vec3_normalize :: "uint Vec3 \<Rightarrow> error + (uint Vec3 ret \<times> uint Vec3)" where
  "vec3_normalize this =
     (let len = vec3_length this
      in if len = 0 then Inr (No_Value, this)
         else vec3_div_assign_scalar this (double_to_uint len))"

definition vec3_normalized :: "uint Vec3 \<Rightarrow> error + (uint Vec3 ret \<times> uint Vec3)" where
  "vec3_normalized this =
     (if callable_on_const vec3_length_qualifier
      then (let len = vec3_length this
            in if len = 0 then Inr (Returns Vec3_ctor0, this)
               else (case double_div (uint_to_double (vec3_x this)) len of
                       Inl e \<Rightarrow> Inl e
                     | Inr qx \<Rightarrow>
                        (case double_div (uint_to_double (vec3_y this)) len of
                           Inl e \<Rightarrow> Inl e
                         | Inr qy \<Rightarrow>
                            (case double_div (uint_to_double (vec3_z this)) len of
                               Inl e \<Rightarrow> Inl e
                             | Inr qz \<Rightarrow>
                                 Inr (Returns (Vec3 (double_to_uint qx) (double_to_uint qy)
                                                    (double_to_uint qz)), this)))))
      else Inl Ill_Formed)"

subsection \<open>Vec4\<close>

definition vec4_length :: "uint Vec4 \<Rightarrow> real" where
  "vec4_length this =
     sqrt (uint_to_double (vec4_x this * vec4_x this + vec4_y this * vec4_y this
                           + vec4_z this * vec4_z this + vec4_w this * vec4_w this))"

definition vec4_normalize :: "uint Vec4 \<Rightarrow> error + (uint Vec4 ret \<times> uint Vec4)" where
  "vec4_normalize this =
     (let len = vec4_length this
      in if len = 0 then Inr (No_Value, this)
         else vec4_div_assign_scalar this (double_to_uint len))"

text \<open>
  \<open>normalized() const\<close>: \<open>double len = length(); if (!len) { return Vec4<T>{}; }
  return Vec4<T>{*this /= len};\<close>. Both \<open>length()\<close> and \<open>operator/=(T)\<close> are called on
  the \<open>const\<close> receiver, and the result of \<open>operator/=\<close>, declared \<open>void\<close>, is the only
  initialiser of the vector returned: without a value there is nothing to build it
  from.
\<close>

definition vec4_normalized :: "uint Vec4 \<Rightarrow> error + (uint Vec4 ret \<times> uint Vec4)" where
  "vec4_normalized this =
     (if callable_on_const vec4_length_qualifier
         \<and> callable_on_const vec4_div_assign_scalar_qualifier
      then (let len = vec4_length this
            in if len = 0 then Inr (Returns Vec4_ctor0, this)
               else (case vec4_div_assign_scalar this (double_to_uint len) of
                       Inl e \<Rightarrow> Inl e
                     | Inr (No_Value, this') \<Rightarrow> Inl Ill_Formed
                     | Inr (Returns r, this') \<Rightarrow> Inr (Returns r, this')))
      else Inl Ill_Formed)"

section \<open>Operator expressions\<close>

text \<open>
  The operands of a product \<open>lhs * rhs\<close>. The overloads of \<open>operator*\<close> on \<open>Vec3<T>\<close>
  are the two member functions, both with the vector on the left; the one-argument
  constructor is \<open>explicit\<close>, so a scalar is never converted to a vector.
\<close>

datatype 'a operand = Scalar 'a | V3 "'a Vec3"

fun operator_mul :: "'a::times operand \<Rightarrow> 'a operand \<Rightarrow> error + 'a operand" where
  "operator_mul (V3 v) (V3 rhs) = Inr (V3 (vec3_mul_vec v rhs))"
| "operator_mul (V3 v) (Scalar rhs) = Inr (V3 (vec3_mul_scalar v rhs))"
| "operator_mul (Scalar a) (Scalar b) = Inr (Scalar (a * b))"
| "operator_mul (Scalar s) (V3 v) = Inl No_Matching_Operator"


section \<open>What a call returns\<close>


section \<open>Reading and writing through the swizzles of Vec2\<close>

lemmas swizzle2_defs =
  swizzle2_read_def swizzle2_call_def swizzle2_assign_def Swizzle_assign_def
  Swizzle_to_Vec2_def Swizzle_AA_to_Vec2_def vec2_v_def vec2_of_v_def Vec2_ctor1_def Let_def

lemmas swizzle2_compound_defs =
  swizzle2_add_assign_vec_def swizzle2_sub_assign_vec_def
  swizzle2_mul_assign_vec_def swizzle2_div_assign_vec_def
  swizzle2_add_assign_scalar_def swizzle2_sub_assign_scalar_def
  swizzle2_mul_assign_scalar_def swizzle2_div_assign_scalar_def
  Swizzle_add_assign_vec_def Swizzle_sub_assign_vec_def
  Swizzle_mul_assign_vec_def Swizzle_div_assign_vec_def
  Swizzle_add_assign_scalar_def Swizzle_sub_assign_scalar_def
  Swizzle_mul_assign_scalar_def Swizzle_div_assign_scalar_def
  Swizzle_compound_vec_def Swizzle_compound_scalar_def swizzle2_call_checked_def

lemma index_below_2: "(n::nat) < 2 \<longleftrightarrow> n = 0 \<or> n = 1"
  by auto

lemma swizzle2_call_distinct:
  "A < 2 \<Longrightarrow> B < 2 \<Longrightarrow> A \<noteq> B \<Longrightarrow> swizzle2_call primary A B this rhs = Inr (primary A B this rhs)"
  by (simp add: swizzle2_call_def)

lemma swizzle2_call_equal:
  "A < 2 \<Longrightarrow> swizzle2_call primary A A this rhs = Inl No_Matching_Operator"
  by (simp add: swizzle2_call_def)

text \<open>
  C1, as stated, at the member \<open>xx\<close> (index pair \<open>(0, 0)\<close>) of the vector \<open>(1, 2)\<close> with
  the source \<open>(3, 4)\<close>: the claim has element 0 hold 4 afterwards and the assignment
  return the vector \<open>(4, 2)\<close>. The class for equal indices has no assignment operator,
  so the expression has no matching operator and nothing is written.
\<close>

theorem C1_repeated_index_assign_counterexample:
  "swizzle2_assign 0 0 (Vec2 (1::32 word) 2) (Vec2 3 4) = Inl No_Matching_Operator
   \<and> swizzle2_assign 0 0 (Vec2 (1::32 word) 2) (Vec2 3 4) \<noteq> Inr (Vec2 4 2, Vec2 4 2)"
  by (simp add: swizzle2_assign_def swizzle2_call_def)

text \<open>
  C1, amended: for a swizzle of a 2-component vector whose two positions select the
  same index, the assignment of a vector is not available (the class declares no such
  operator), so no element is written through it. The writes in tuple order are those
  of the swizzles with two distinct indices: element \<open>A\<close> receives the first component
  of the source and element \<open>B\<close> the second.
\<close>

theorem C1_repeated_index_assign_rejected:
  assumes "A < 2" and "B < 2"
  shows "swizzle2_assign A A this rhs = Inl No_Matching_Operator
         \<and> (A \<noteq> B \<longrightarrow>
              (case swizzle2_assign A B this rhs of
                 Inl e \<Rightarrow> False
               | Inr (res, this') \<Rightarrow>
                   vec2_v this' ! A = vec2_x rhs \<and> vec2_v this' ! B = vec2_y rhs))"
proof -
  have equal: "swizzle2_assign A A this rhs = Inl No_Matching_Operator"
    using assms(1) by (simp add: swizzle2_assign_def swizzle2_call_equal)
  have distinct: "vec2_v (snd (Swizzle_assign A B this rhs)) ! A = vec2_x rhs
                  \<and> vec2_v (snd (Swizzle_assign A B this rhs)) ! B = vec2_y rhs"
    if "A \<noteq> B"
    using assms that by (auto simp: index_below_2 Swizzle_assign_def vec2_v_def vec2_of_v_def Let_def)
  have "case swizzle2_assign A B this rhs of
          Inl e \<Rightarrow> False
        | Inr (res, this') \<Rightarrow> vec2_v this' ! A = vec2_x rhs \<and> vec2_v this' ! B = vec2_y rhs"
    if "A \<noteq> B"
    using assms that distinct [OF that]
    by (cases "Swizzle_assign A B this rhs") (simp add: swizzle2_assign_def swizzle2_call_distinct)
  with equal show ?thesis by simp
qed

theorem C1_repeated_index_assign_rejected_witness:
  "swizzle2_assign 1 1 (Vec2 (1::32 word) 2) (Vec2 3 4) = Inl No_Matching_Operator
   \<and> swizzle2_assign 1 0 (Vec2 (1::32 word) 2) (Vec2 3 4) = Inr (Vec2 4 3, Vec2 4 3)"
proof -
  have one: "(1::nat) < 2" and zero: "(0::nat) < 2"
    by simp_all
  have "swizzle2_assign 1 1 (Vec2 (1::32 word) 2) (Vec2 3 4) = Inl No_Matching_Operator"
    using C1_repeated_index_assign_rejected [OF one zero, of "Vec2 (1::32 word) 2" "Vec2 3 4"]
    by simp
  moreover have "swizzle2_assign 1 0 (Vec2 (1::32 word) 2) (Vec2 3 4) = Inr (Vec2 4 3, Vec2 4 3)"
    by (simp add: swizzle2_defs)
  ultimately show ?thesis by simp
qed

text \<open>
  C6: for index pairs within \<open>{0, 1}\<close>, equal or not, reading the swizzle gives a vector
  whose first component is element \<open>A\<close> and whose second is element \<open>B\<close> of the parent,
  and the parent is as before. For the parent \<open>(1, 2)\<close>, \<open>xx\<close> reads \<open>(1, 1)\<close> and \<open>xy\<close>
  reads \<open>(1, 2)\<close>.
\<close>

theorem C6_swizzle_read:
  assumes "A < 2" and "B < 2"
  shows "swizzle2_read A B this = Inr (Vec2 (vec2_v this ! A) (vec2_v this ! B), this)"
  using assms by (auto simp: swizzle2_defs)

theorem C6_swizzle_read_witness:
  "swizzle2_read 0 0 (Vec2 (1::32 word) 2) = Inr (Vec2 1 1, Vec2 1 2)
   \<and> swizzle2_read 0 1 (Vec2 (1::32 word) 2) = Inr (Vec2 1 2, Vec2 1 2)"
proof -
  have zero: "(0::nat) < 2" and one: "(1::nat) < 2"
    by simp_all
  show ?thesis
    using C6_swizzle_read [OF zero zero, of "Vec2 (1::32 word) 2"]
          C6_swizzle_read [OF zero one, of "Vec2 (1::32 word) 2"]
    by (simp add: vec2_v_def)
qed

text \<open>
  C7: reading \<open>xy\<close> (index pair \<open>(0, 1)\<close>) and assigning the vector read back through \<open>xy\<close>
  leaves the parent as it was; assigning \<open>w\<close> through \<open>xy\<close> makes element 0 the first and
  element 1 the second component of \<open>w\<close>. A 2-component vector has no other element.
\<close>

theorem C7_swizzle_xy_round_trip:
  "(case swizzle2_read 0 1 this of
      Inl e \<Rightarrow> Inl e
    | Inr (r, this1) \<Rightarrow> swizzle2_assign 0 1 this1 r) = Inr (this, this)
   \<and> swizzle2_assign 0 1 this w = Inr (Vec2 (vec2_x w) (vec2_y w), Vec2 (vec2_x w) (vec2_y w))"
  by (simp add: swizzle2_defs)

text \<open>The index pairs with two distinct indices below 2.\<close>

lemma distinct_index_pairs:
  "A < 2 \<Longrightarrow> B < 2 \<Longrightarrow> A \<noteq> B \<Longrightarrow> (A, B) = (0, 1) \<or> (A, B) = (1::nat, 0::nat)"
  by (auto simp: index_below_2)

text \<open>
  C10: the swizzles of a 2-component vector with two distinct indices are \<open>xy\<close> (index
  pair \<open>(0, 1)\<close>) and \<open>yx\<close> (index pair \<open>(1, 0)\<close>). Through either, the assignment and
  each of the eight compound assignments return the parent vector after the writes,
  in storage order; the value returned and the parent afterwards are given for each
  operator, for the parent \<open>(p, q)\<close>, the source \<open>(a, b)\<close> and the scalar \<open>s\<close>. After
  \<open>v.yx = Vec2<T>{a, b}\<close> the result is \<open>(b, a)\<close>. A division by a zero of the element
  type does not return.
\<close>

theorem C10_swizzle_returns_parent:
  fixes p q a b s :: "'a::{zero,plus,minus,times,divide}"
  shows "swizzle2_assign 0 1 (Vec2 p q) (Vec2 a b) = Inr (Vec2 a b, Vec2 a b)
       \<and> swizzle2_assign 1 0 (Vec2 p q) (Vec2 a b) = Inr (Vec2 b a, Vec2 b a)
       \<and> swizzle2_add_assign_vec 0 1 (Vec2 p q) (Vec2 a b)
           = Inr (Vec2 (p + a) (q + b), Vec2 (p + a) (q + b))
       \<and> swizzle2_add_assign_vec 1 0 (Vec2 p q) (Vec2 a b)
           = Inr (Vec2 (p + b) (q + a), Vec2 (p + b) (q + a))
       \<and> swizzle2_sub_assign_vec 0 1 (Vec2 p q) (Vec2 a b)
           = Inr (Vec2 (p - a) (q - b), Vec2 (p - a) (q - b))
       \<and> swizzle2_sub_assign_vec 1 0 (Vec2 p q) (Vec2 a b)
           = Inr (Vec2 (p - b) (q - a), Vec2 (p - b) (q - a))
       \<and> swizzle2_mul_assign_vec 0 1 (Vec2 p q) (Vec2 a b)
           = Inr (Vec2 (p * a) (q * b), Vec2 (p * a) (q * b))
       \<and> swizzle2_mul_assign_vec 1 0 (Vec2 p q) (Vec2 a b)
           = Inr (Vec2 (p * b) (q * a), Vec2 (p * b) (q * a))
       \<and> swizzle2_div_assign_vec 0 1 (Vec2 p q) (Vec2 a b)
           = (if a = 0 \<or> b = 0 then Inl Division_By_Zero
              else Inr (Vec2 (p div a) (q div b), Vec2 (p div a) (q div b)))
       \<and> swizzle2_div_assign_vec 1 0 (Vec2 p q) (Vec2 a b)
           = (if a = 0 \<or> b = 0 then Inl Division_By_Zero
              else Inr (Vec2 (p div b) (q div a), Vec2 (p div b) (q div a)))
       \<and> swizzle2_add_assign_scalar 0 1 (Vec2 p q) s
           = Inr (Vec2 (p + s) (q + s), Vec2 (p + s) (q + s))
       \<and> swizzle2_add_assign_scalar 1 0 (Vec2 p q) s
           = Inr (Vec2 (p + s) (q + s), Vec2 (p + s) (q + s))
       \<and> swizzle2_sub_assign_scalar 0 1 (Vec2 p q) s
           = Inr (Vec2 (p - s) (q - s), Vec2 (p - s) (q - s))
       \<and> swizzle2_sub_assign_scalar 1 0 (Vec2 p q) s
           = Inr (Vec2 (p - s) (q - s), Vec2 (p - s) (q - s))
       \<and> swizzle2_mul_assign_scalar 0 1 (Vec2 p q) s
           = Inr (Vec2 (p * s) (q * s), Vec2 (p * s) (q * s))
       \<and> swizzle2_mul_assign_scalar 1 0 (Vec2 p q) s
           = Inr (Vec2 (p * s) (q * s), Vec2 (p * s) (q * s))
       \<and> swizzle2_div_assign_scalar 0 1 (Vec2 p q) s
           = (if s = 0 then Inl Division_By_Zero
              else Inr (Vec2 (p div s) (q div s), Vec2 (p div s) (q div s)))
       \<and> swizzle2_div_assign_scalar 1 0 (Vec2 p q) s
           = (if s = 0 then Inl Division_By_Zero
              else Inr (Vec2 (p div s) (q div s), Vec2 (p div s) (q div s)))"
proof -
  note defs = swizzle2_defs swizzle2_compound_defs
  have assign:
    "swizzle2_assign 0 1 (Vec2 p q) (Vec2 a b) = Inr (Vec2 a b, Vec2 a b)"
    "swizzle2_assign 1 0 (Vec2 p q) (Vec2 a b) = Inr (Vec2 b a, Vec2 b a)"
    by (simp_all add: defs)
  have vec:
    "swizzle2_add_assign_vec 0 1 (Vec2 p q) (Vec2 a b)
       = Inr (Vec2 (p + a) (q + b), Vec2 (p + a) (q + b))"
    "swizzle2_add_assign_vec 1 0 (Vec2 p q) (Vec2 a b)
       = Inr (Vec2 (p + b) (q + a), Vec2 (p + b) (q + a))"
    "swizzle2_sub_assign_vec 0 1 (Vec2 p q) (Vec2 a b)
       = Inr (Vec2 (p - a) (q - b), Vec2 (p - a) (q - b))"
    "swizzle2_sub_assign_vec 1 0 (Vec2 p q) (Vec2 a b)
       = Inr (Vec2 (p - b) (q - a), Vec2 (p - b) (q - a))"
    "swizzle2_mul_assign_vec 0 1 (Vec2 p q) (Vec2 a b)
       = Inr (Vec2 (p * a) (q * b), Vec2 (p * a) (q * b))"
    "swizzle2_mul_assign_vec 1 0 (Vec2 p q) (Vec2 a b)
       = Inr (Vec2 (p * b) (q * a), Vec2 (p * b) (q * a))"
    by (simp_all add: defs)
  have div_vec:
    "swizzle2_div_assign_vec 0 1 (Vec2 p q) (Vec2 a b)
       = (if a = 0 \<or> b = 0 then Inl Division_By_Zero
          else Inr (Vec2 (p div a) (q div b), Vec2 (p div a) (q div b)))"
    "swizzle2_div_assign_vec 1 0 (Vec2 p q) (Vec2 a b)
       = (if a = 0 \<or> b = 0 then Inl Division_By_Zero
          else Inr (Vec2 (p div b) (q div a), Vec2 (p div b) (q div a)))"
    by (simp_all add: defs)
  have scalar:
    "swizzle2_add_assign_scalar 0 1 (Vec2 p q) s = Inr (Vec2 (p + s) (q + s), Vec2 (p + s) (q + s))"
    "swizzle2_add_assign_scalar 1 0 (Vec2 p q) s = Inr (Vec2 (p + s) (q + s), Vec2 (p + s) (q + s))"
    "swizzle2_sub_assign_scalar 0 1 (Vec2 p q) s = Inr (Vec2 (p - s) (q - s), Vec2 (p - s) (q - s))"
    "swizzle2_sub_assign_scalar 1 0 (Vec2 p q) s = Inr (Vec2 (p - s) (q - s), Vec2 (p - s) (q - s))"
    "swizzle2_mul_assign_scalar 0 1 (Vec2 p q) s = Inr (Vec2 (p * s) (q * s), Vec2 (p * s) (q * s))"
    "swizzle2_mul_assign_scalar 1 0 (Vec2 p q) s = Inr (Vec2 (p * s) (q * s), Vec2 (p * s) (q * s))"
    by (simp_all add: defs)
  have div_scalar:
    "swizzle2_div_assign_scalar 0 1 (Vec2 p q) s
       = (if s = 0 then Inl Division_By_Zero
          else Inr (Vec2 (p div s) (q div s), Vec2 (p div s) (q div s)))"
    "swizzle2_div_assign_scalar 1 0 (Vec2 p q) s
       = (if s = 0 then Inl Division_By_Zero
          else Inr (Vec2 (p div s) (q div s), Vec2 (p div s) (q div s)))"
    by (simp_all add: defs)
  show ?thesis
    by (simp only: assign vec div_vec scalar div_scalar simp_thms)
qed

theorem C10_swizzle_returns_parent_witness:
  "swizzle2_assign 1 0 (Vec2 (7::32 word) 9) (Vec2 3 2) = Inr (Vec2 2 3, Vec2 2 3)
   \<and> swizzle2_add_assign_vec 1 0 (Vec2 (7::32 word) 9) (Vec2 3 2) = Inr (Vec2 9 12, Vec2 9 12)
   \<and> swizzle2_mul_assign_scalar 1 0 (Vec2 (7::32 word) 9) 0 = Inr (Vec2 0 0, Vec2 0 0)
   \<and> swizzle2_div_assign_vec 1 0 (Vec2 (7::32 word) 9) (Vec2 3 2) = Inr (Vec2 3 3, Vec2 3 3)
   \<and> swizzle2_div_assign_scalar 1 0 (Vec2 (7::32 word) 9) 0 = Inl Division_By_Zero"
  using C10_swizzle_returns_parent
          [where p = "7::32 word" and q = 9 and a = 3 and b = 2 and s = 0]
  by simp

section \<open>Compound assignment on the vectors\<close>


lemmas vec3_compound_defs =
  vec3_add_assign_vec_def vec3_sub_assign_vec_def vec3_mul_assign_vec_def vec3_div_assign_vec_def
  vec3_add_assign_scalar_def vec3_sub_assign_scalar_def
  vec3_mul_assign_scalar_def vec3_div_assign_scalar_def

lemmas vec4_compound_defs =
  vec4_add_assign_vec_def vec4_sub_assign_vec_def vec4_mul_assign_vec_def vec4_div_assign_vec_def
  vec4_add_assign_scalar_def vec4_sub_assign_scalar_def
  vec4_mul_assign_scalar_def vec4_div_assign_scalar_def

text \<open>
  The compound assignments of \<open>Vec3\<close> and \<open>Vec4\<close> with a vector on the right work
  element by element, each with its own operation.
\<close>

lemma vec3_compound_vec_elementwise:
  "snd (vec3_add_assign_vec (Vec3 a b c) (Vec3 d e f)) = Vec3 (a + d) (b + e) (c + f)"
  "snd (vec3_sub_assign_vec (Vec3 a b c) (Vec3 d e f)) = Vec3 (a - d) (b - e) (c - f)"
  "snd (vec3_mul_assign_vec (Vec3 a b c) (Vec3 d e f)) = Vec3 (a * d) (b * e) (c * f)"
  "vec3_div_assign_vec (Vec3 a b c) (Vec3 d e f)
     = (if d = 0 \<or> e = 0 \<or> f = 0 then Inl Division_By_Zero
        else Inr (No_Value, Vec3 (a div d) (b div e) (c div f)))"
  by (simp_all add: vec3_compound_defs)

lemma vec4_compound_vec_elementwise:
  "snd (vec4_add_assign_vec (Vec4 a b c d) (Vec4 e f g h)) = Vec4 (a + e) (b + f) (c + g) (d + h)"
  "snd (vec4_sub_assign_vec (Vec4 a b c d) (Vec4 e f g h)) = Vec4 (a - e) (b - f) (c - g) (d - h)"
  "snd (vec4_mul_assign_vec (Vec4 a b c d) (Vec4 e f g h)) = Vec4 (a * e) (b * f) (c * g) (d * h)"
  "vec4_div_assign_vec (Vec4 a b c d) (Vec4 e f g h)
     = (if e = 0 \<or> f = 0 \<or> g = 0 \<or> h = 0 then Inl Division_By_Zero
        else Inr (No_Value, Vec4 (a div e) (b div f) (c div g) (d div h)))"
  by (simp_all add: vec4_compound_defs)

text \<open>
  C2, for \<open>Vec2<unsigned int>\<close>: \<open>(6, 8) += (2, 4)\<close> leaves \<open>(3, 2)\<close>, the quotients, where
  the claim has the sums \<open>(8, 12)\<close>; \<open>(1, 2) *= (3, 4)\<close> leaves \<open>(3, 6)\<close>, both components
  multiplied by the first component of the right-hand side, where the claim has
  \<open>(3, 8)\<close>.
\<close>

theorem C2_vec2_compound_vec_at_failing_input:
  "snd (vec2_add_assign_vec (Vec2 (6::32 word) 8) (Vec2 2 4)) = Vec2 3 2
   \<and> snd (vec2_add_assign_vec (Vec2 (6::32 word) 8) (Vec2 2 4)) \<noteq> Vec2 (6 + 2) (8 + 4)
   \<and> snd (vec2_mul_assign_vec (Vec2 (1::32 word) 2) (Vec2 3 4)) = Vec2 3 6
   \<and> snd (vec2_mul_assign_vec (Vec2 (1::32 word) 2) (Vec2 3 4)) \<noteq> Vec2 (1 * 3) (2 * 4)"
  by (simp add: vec2_add_assign_vec_def vec2_mul_assign_vec_def)




section \<open>Normalisation\<close>

lemmas length_defs = vec2_length_def vec3_length_def vec4_length_def uint_to_double_def

lemmas qualifier_defs =
  callable_on_const_def vec2_length_qualifier_def vec3_length_qualifier_def
  vec4_length_qualifier_def vec4_div_assign_scalar_qualifier_def

text \<open>
  The guard: at a length of zero \<open>normalize()\<close> returns before the division, whatever
  the dimension, and so does \<open>normalized()\<close> of \<open>Vec3\<close>, with the zero vector.
\<close>

lemma normalize_zero_length:
  "vec2_length v2 = 0 \<Longrightarrow> vec2_normalize v2 = Inr (No_Value, v2)"
  "vec3_length v3 = 0 \<Longrightarrow> vec3_normalize v3 = Inr (No_Value, v3)"
  "vec4_length v4 = 0 \<Longrightarrow> vec4_normalize v4 = Inr (No_Value, v4)"
  by (simp_all add: vec2_normalize_def vec3_normalize_def vec4_normalize_def)

lemma vec3_normalized_zero_length:
  "vec3_length v3 = 0 \<Longrightarrow> vec3_normalized v3 = Inr (Returns (Vec3 0 0 0), v3)"
  by (simp add: vec3_normalized_def qualifier_defs Vec3_ctor0_def)

lemma zero_vector_length:
  "vec2_length (Vec2 0 0) = 0" "vec3_length (Vec3 0 0 0) = 0" "vec4_length (Vec4 0 0 0 0) = 0"
  by (simp_all add: length_defs)

text \<open>\<open>normalized()\<close> of \<open>Vec3\<close> leaves the receiver as it was.\<close>

lemma vec3_normalized_receiver:
  "vec3_normalized this = Inr (r, this') \<Longrightarrow> this' = this"
  by (auto simp: vec3_normalized_def double_div_def Let_def split: if_splits)

text \<open>
  \<open>normalized()\<close> of \<open>Vec2\<close> and of \<open>Vec4\<close> cannot be instantiated: each calls a
  member function that is not \<open>const\<close> on its \<open>const\<close> receiver.
\<close>

lemma normalized_ill_formed:
  "vec2_normalized v2 = Inl Ill_Formed" "vec4_normalized v4 = Inl Ill_Formed"
  by (simp_all add: vec2_normalized_def vec4_normalized_def qualifier_defs)

text \<open>
  C3, for \<open>unsigned int\<close> and the zero vectors, whose length is zero: \<open>normalize()\<close> leaves
  the vector as it was in all three dimensions, and \<open>normalized()\<close> of \<open>Vec3\<close> returns the
  zero vector; \<open>normalized()\<close> of \<open>Vec2\<close> and of \<open>Vec4\<close> are ill-formed and return nothing,
  where the claim has them return the zero vector.
\<close>

theorem C3_normalized_zero_vector_ill_formed:
  "vec2_length (Vec2 0 0) = 0
   \<and> vec4_length (Vec4 0 0 0 0) = 0
   \<and> vec2_normalized (Vec2 0 0) = Inl Ill_Formed
   \<and> vec4_normalized (Vec4 0 0 0 0) = Inl Ill_Formed
   \<and> vec2_normalized (Vec2 0 0) \<noteq> Inr (Returns (Vec2 0 0), Vec2 0 0)
   \<and> vec4_normalized (Vec4 0 0 0 0) \<noteq> Inr (Returns (Vec4 0 0 0 0), Vec4 0 0 0 0)
   \<and> vec3_normalized (Vec3 0 0 0) = Inr (Returns (Vec3 0 0 0), Vec3 0 0 0)
   \<and> vec2_normalize (Vec2 0 0) = Inr (No_Value, Vec2 0 0)
   \<and> vec3_normalize (Vec3 0 0 0) = Inr (No_Value, Vec3 0 0 0)
   \<and> vec4_normalize (Vec4 0 0 0 0) = Inr (No_Value, Vec4 0 0 0 0)"
  by (simp add: length_defs qualifier_defs vec2_normalized_def vec3_normalized_def
        vec4_normalized_def vec2_normalize_def vec3_normalize_def vec4_normalize_def
        Vec3_ctor0_def)

text \<open>
  C4, for \<open>unsigned int\<close>: the length of \<open>(0, 0, 0, 2)\<close> is 2, and \<open>normalized()\<close> of \<open>Vec4\<close>
  is ill-formed, as is \<open>normalized()\<close> of \<open>Vec2\<close> on \<open>(0, 2)\<close>: neither returns a vector,
  where the claim has them return \<open>(0, 0, 0, 1)\<close> and \<open>(0, 1)\<close>. \<open>normalized()\<close> of \<open>Vec3\<close>
  on \<open>(0, 0, 2)\<close> returns \<open>(0, 0, 1)\<close> and leaves the receiver.
\<close>

theorem C4_normalized_ill_formed_at_nonzero_length:
  "vec4_length (Vec4 0 0 0 2) = 2
   \<and> vec4_normalized (Vec4 0 0 0 2) = Inl Ill_Formed
   \<and> vec4_normalized (Vec4 0 0 0 2) \<noteq> Inr (Returns (Vec4 0 0 0 1), Vec4 0 0 0 2)
   \<and> vec2_length (Vec2 0 2) = 2
   \<and> vec2_normalized (Vec2 0 2) = Inl Ill_Formed
   \<and> vec2_normalized (Vec2 0 2) \<noteq> Inr (Returns (Vec2 0 1), Vec2 0 2)
   \<and> vec3_normalized (Vec3 0 0 2) = Inr (Returns (Vec3 0 0 1), Vec3 0 0 2)"
  by (simp add: length_defs qualifier_defs vec2_normalized_def vec3_normalized_def
        vec4_normalized_def double_div_def double_to_uint_def)

section \<open>Products with a scalar\<close>

text \<open>
  C5, for the vector \<open>(2, 2, 2)\<close> and the scalar 2 of the test
  \<open>test_operator_overload_scalar_mult_vec\<close>: \<open>v * 2\<close> is \<open>(4, 4, 4)\<close>, and \<open>2 * v\<close> has no
  matching operator, where the claim has it equal \<open>v * 2\<close>.
\<close>

theorem C5_scalar_times_vec3_no_operator:
  "operator_mul (V3 (Vec3 2 2 2)) (Scalar (2::real)) = Inr (V3 (Vec3 4 4 4))
   \<and> operator_mul (Scalar (2::real)) (V3 (Vec3 2 2 2)) = Inl No_Matching_Operator
   \<and> operator_mul (Scalar (2::real)) (V3 (Vec3 2 2 2))
       \<noteq> operator_mul (V3 (Vec3 2 2 2)) (Scalar (2::real))"
  by (simp add: vec3_mul_scalar_def)

end
